theory Spec2Isabelle
  imports Main "HOL-Library.Word"
begin

section \<open>Python values\<close>

text \<open>
  The values \<^verbatim>\<open>response.json()\<close> can produce, and the values the client serialises
  as request bodies: \<^verbatim>\<open>None\<close>, \<^verbatim>\<open>bool\<close>, \<^verbatim>\<open>int\<close> (unbounded), \<^verbatim>\<open>float\<close>
  (the 64 bits of the IEEE double), \<^verbatim>\<open>str\<close>, \<^verbatim>\<open>list\<close> and \<^verbatim>\<open>dict\<close>. A dict is
  an association list in insertion order; its keys are strings.
\<close>

datatype jvalue =
    JNull
  | JBool bool
  | JInt int
  | JFloat "64 word"
  | JStr string
  | JArr "jvalue list"
  | JObj "(string \<times> jvalue) list"

text \<open>
  Python's truth test, as \<^verbatim>\<open>if response\<close> applies it: \<^verbatim>\<open>None\<close>, \<^verbatim>\<open>False\<close>, zero,
  and the empty string, list and dict are false. A float is false when it compares
  equal to zero, that is when every bit but the sign bit is clear.
\<close>

fun truthy :: "jvalue \<Rightarrow> bool" where
  "truthy JNull = False"
| "truthy (JBool b) = b"
| "truthy (JInt i) = (i \<noteq> 0)"
| "truthy (JFloat w) = (take_bit 63 w \<noteq> 0)"
| "truthy (JStr s) = (s \<noteq> [])"
| "truthy (JArr xs) = (xs \<noteq> [])"
| "truthy (JObj d) = (d \<noteq> [])"

fun type_name :: "jvalue \<Rightarrow> string" where
  "type_name JNull = ''NoneType''"
| "type_name (JBool b) = ''bool''"
| "type_name (JInt i) = ''int''"
| "type_name (JFloat w) = ''float''"
| "type_name (JStr s) = ''str''"
| "type_name (JArr xs) = ''list''"
| "type_name (JObj d) = ''dict''"

section \<open>Exceptions\<close>

text \<open>
  \<open>RequestException m\<close> is any instance of \<^verbatim>\<open>requests.RequestException\<close> (the class
  or a subclass: a connection error, a timeout, the \<^verbatim>\<open>HTTPError\<close> of
  \<^verbatim>\<open>raise_for_status\<close>) whose \<^verbatim>\<open>str()\<close> is \<open>m\<close>. \<open>OtherException\<close> is an exception
  outside that hierarchy. \<open>RuntimeError m e\<close> has message \<open>m\<close> and \<^verbatim>\<open>__cause__\<close> \<open>e\<close>
  (\<^verbatim>\<open>raise ... from e\<close>). \<open>AttributeError t a\<close> is
  "\<open>t\<close> object has no attribute \<open>a\<close>".
\<close>

datatype exn =
    RequestException string
  | OtherException string
  | RuntimeError string exn
  | AttributeError string string

fun str_of :: "exn \<Rightarrow> string" where
  "str_of (RequestException m) = m"
| "str_of (OtherException m) = m"
| "str_of (RuntimeError m e) = m"
| "str_of (AttributeError t a) = t @ '' object has no attribute '' @ a"

fun is_RequestException :: "exn \<Rightarrow> bool" where
  "is_RequestException (RequestException m) = True"
| "is_RequestException e = False"

text \<open>
  \<^verbatim>\<open>response.get(key, default)\<close>: the method exists on a dict only; on any other
  value the attribute lookup raises.
\<close>

fun py_get :: "jvalue \<Rightarrow> string \<Rightarrow> jvalue \<Rightarrow> exn + jvalue" where
  "py_get (JObj d) k dflt = Inr (case map_of d k of None \<Rightarrow> dflt | Some v \<Rightarrow> v)"
| "py_get v k dflt = Inl (AttributeError (type_name v) ''get'')"

section \<open>The HTTP library\<close>

text \<open>
  What the client hands to \<^verbatim>\<open>requests.request\<close>: the HTTP method and the URL (its
  two positional arguments) and the keyword arguments \<^verbatim>\<open>timeout\<close>, \<^verbatim>\<open>headers\<close> and, when
  the caller gives one, \<^verbatim>\<open>json\<close>.
\<close>

record request =
  http_method :: string
  url :: string
  timeout :: "int option"
  headers :: "(string \<times> string) list"
  json :: "jvalue option"

text \<open>
  What the client reads of the response object: whether \<^verbatim>\<open>raise_for_status()\<close>
  raises, the bytes of \<^verbatim>\<open>content\<close>, and what \<^verbatim>\<open>json()\<close> returns or raises.
\<close>

record response =
  raise_for_status :: "exn option"
  content :: string
  json_of :: "exn + jvalue"

text \<open>
  The network is a parameter: a server with a state of its own answers a request with
  an exception or a response and moves to a new state. The world records every call
  made to \<^verbatim>\<open>requests.request\<close>, in order, as the unit tests' mock does.
\<close>

type_synonym 's network = "'s \<Rightarrow> request \<Rightarrow> (exn + response) \<times> 's"

record 's world =
  calls :: "request list"
  server :: 's

definition requests_request :: "'s network \<Rightarrow> request \<Rightarrow> 's world \<Rightarrow> (exn + response) \<times> 's world" where
  "requests_request net rq w =
     (case net (server w) rq of
        (res, s') \<Rightarrow> (res, \<lparr>calls = calls w @ [rq], server = s'\<rparr>))"

section \<open>DbxClient\<close>

record DbxClient =
  base_url :: string
  timeout :: "int option"
  headers :: "(string \<times> string) list"

definition rstrip :: "string \<Rightarrow> char \<Rightarrow> string" where
  "rstrip s c = rev (dropWhile (\<lambda>x. x = c) (rev s))"

definition DbxClient_init :: "string \<Rightarrow> int option \<Rightarrow> (string \<times> string) list option \<Rightarrow> DbxClient" where
  "DbxClient_init base_url' timeout' headers' =
     \<lparr>base_url = rstrip base_url' CHR ''/'',
      timeout = timeout',
      headers = (case headers' of None \<Rightarrow> [] | Some h \<Rightarrow> if h \<noteq> [] then h else [])\<rparr>"

text \<open>
  The arguments \<^verbatim>\<open>_request\<close> passes to \<^verbatim>\<open>requests.request\<close>: the URL is the stored
  base URL followed by the path; timeout and headers are the client's; of the keyword
  arguments only \<^verbatim>\<open>json\<close> is ever given by a caller.
\<close>

definition request_args :: "DbxClient \<Rightarrow> string \<Rightarrow> string \<Rightarrow> jvalue option \<Rightarrow> request" where
  "request_args self method' path kwargs_json =
     (let url' = base_url self @ path
      in \<lparr>http_method = method', url = url', timeout = DbxClient.timeout self,
          headers = DbxClient.headers self, json = kwargs_json\<rparr>)"

definition DbxClient_request ::
  "'s network \<Rightarrow> DbxClient \<Rightarrow> string \<Rightarrow> string \<Rightarrow> jvalue option \<Rightarrow> 's world \<Rightarrow> (exn + jvalue) \<times> 's world" where
  "DbxClient_request net self method' path kwargs_json w =
     (case requests_request net (request_args self method' path kwargs_json) w of
        (res, w') \<Rightarrow>
          (let body =
             (case res of
                Inl e \<Rightarrow> Inl e
              | Inr response \<Rightarrow>
                  (case raise_for_status response of
                     Some e \<Rightarrow> Inl e
                   | None \<Rightarrow> if content response \<noteq> [] then json_of response else Inr JNull))
           in (case body of
                 Inl e \<Rightarrow>
                   if is_RequestException e
                   then Inl (RuntimeError (''Request failed: '' @ str_of e) e)
                   else Inl e
               | Inr v \<Rightarrow> Inr v,
               w')))"

section \<open>StringClient\<close>

text \<open>
  The facade holds the client it was built with. (The client's own \<^verbatim>\<open>string\<close> field,
  which points back to a facade over the same client, is left out of the record: the
  operations read nothing through it.)
\<close>

record StringClient =
  client :: DbxClient

definition StringClient_init :: "DbxClient \<Rightarrow> StringClient" where
  "StringClient_init client' = \<lparr>client = client'\<rparr>"

definition StringClient_get ::
  "'s network \<Rightarrow> StringClient \<Rightarrow> string \<Rightarrow> 's world \<Rightarrow> (exn + jvalue) \<times> 's world" where
  "StringClient_get net self key w =
     (case DbxClient_request net (client self) ''GET'' (''/redis/string/'' @ key) None w of
        (Inl e, w') \<Rightarrow> (Inl e, w')
      | (Inr response, w') \<Rightarrow>
          (if truthy response then py_get response ''value'' JNull else Inr JNull, w'))"

definition StringClient_set ::
  "'s network \<Rightarrow> StringClient \<Rightarrow> string \<Rightarrow> string \<Rightarrow> int option \<Rightarrow> 's world \<Rightarrow> (exn + unit) \<times> 's world" where
  "StringClient_set net self key value' ttl w =
     (let data = [(''value'', JStr value')];
          data = (case ttl of Some t \<Rightarrow> data @ [(''ttl'', JInt t)] | None \<Rightarrow> data)
      in case DbxClient_request net (client self) ''POST'' (''/redis/string/'' @ key)
                (Some (JObj data)) w of
           (Inl e, w') \<Rightarrow> (Inl e, w')
         | (Inr response, w') \<Rightarrow> (Inr (), w'))"

definition StringClient_delete ::
  "'s network \<Rightarrow> StringClient \<Rightarrow> string \<Rightarrow> 's world \<Rightarrow> (exn + jvalue) \<times> 's world" where
  "StringClient_delete net self key w =
     (case DbxClient_request net (client self) ''DELETE'' (''/redis/string/'' @ key) None w of
        (Inl e, w') \<Rightarrow> (Inl e, w')
      | (Inr response, w') \<Rightarrow>
          (if truthy response then py_get response ''deleted'' (JBool False)
           else Inr (JBool False), w'))"

definition StringClient_info ::
  "'s network \<Rightarrow> StringClient \<Rightarrow> string \<Rightarrow> 's world \<Rightarrow> (exn + jvalue) \<times> 's world" where
  "StringClient_info net self key w =
     (case DbxClient_request net (client self) ''GET'' (''/redis/string/'' @ key @ ''/info'')
             None w of
        (Inl e, w') \<Rightarrow> (Inl e, w')
      | (Inr response, w') \<Rightarrow> (Inr (if truthy response then response else JNull), w'))"

definition StringClient_batch_get ::
  "'s network \<Rightarrow> StringClient \<Rightarrow> string list \<Rightarrow> 's world \<Rightarrow> (exn + jvalue) \<times> 's world" where
  "StringClient_batch_get net self keys w =
     (case DbxClient_request net (client self) ''POST'' ''/redis/string/batch_get''
             (Some (JObj [(''keys'', JArr (map JStr keys))])) w of
        (Inl e, w') \<Rightarrow> (Inl e, w')
      | (Inr response, w') \<Rightarrow>
          (if truthy response then py_get response ''values'' (JArr []) else Inr (JArr []), w'))"

definition StringClient_batch_set ::
  "'s network \<Rightarrow> StringClient \<Rightarrow> (string \<times> jvalue) list list \<Rightarrow> 's world \<Rightarrow> (exn + unit) \<times> 's world" where
  "StringClient_batch_set net self operations w =
     (case DbxClient_request net (client self) ''POST'' ''/redis/string/batch_set''
             (Some (JObj [(''operations'', JArr (map JObj operations))])) w of
        (Inl e, w') \<Rightarrow> (Inl e, w')
      | (Inr response, w') \<Rightarrow> (Inr (), w'))"

section \<open>What the library call did\<close>

text \<open>
  Three readings of the outcome of \<^verbatim>\<open>requests.request\<close>, used to state the properties:
  the call failed with \<open>e\<close> (the network call raised it, or the response has a status
  for which \<^verbatim>\<open>raise_for_status\<close> raises it); the call succeeded with an empty body; the
  call succeeded with a non-empty body that parses to \<open>j\<close>.
\<close>

definition fails_with :: "exn + response \<Rightarrow> exn \<Rightarrow> bool" where
  "fails_with res e =
     (case res of Inl e' \<Rightarrow> e' = e | Inr r \<Rightarrow> raise_for_status r = Some e)"

definition empty_body :: "exn + response \<Rightarrow> bool" where
  "empty_body res =
     (case res of Inl e \<Rightarrow> False | Inr r \<Rightarrow> raise_for_status r = None \<and> content r = [])"

definition parses_to :: "exn + response \<Rightarrow> jvalue \<Rightarrow> bool" where
  "parses_to res j =
     (case res of
        Inl e \<Rightarrow> False
      | Inr r \<Rightarrow> raise_for_status r = None \<and> content r \<noteq> [] \<and> json_of r = Inr j)"

fun is_dict :: "jvalue \<Rightarrow> bool" where
  "is_dict (JObj d) = True"
| "is_dict v = False"

text \<open>The answer of the network to a request in the current world.\<close>

definition answer :: "'s network \<Rightarrow> 's world \<Rightarrow> request \<Rightarrow> exn + response" where
  "answer net w rq = fst (requests_request net rq w)"

definition after :: "'s network \<Rightarrow> 's world \<Rightarrow> request \<Rightarrow> 's world" where
  "after net w rq = snd (requests_request net rq w)"

section \<open>Test doubles\<close>

text \<open>
  The fixtures of the unit tests: the facade over a client for
  \<^verbatim>\<open>http://localhost:8080\<close> built in \<^verbatim>\<open>setUp\<close>, a world in which no call has been made,
  and the patched \<^verbatim>\<open>requests.request\<close>, which answers every call with its
  \<^verbatim>\<open>return_value\<close>.
\<close>

definition string_client :: StringClient where
  "string_client = StringClient_init (DbxClient_init ''http://localhost:8080'' None None)"

definition fresh :: "unit world" where
  "fresh = \<lparr>calls = [], server = ()\<rparr>"

definition mock_request :: "exn + response \<Rightarrow> unit network" where
  "mock_request return_value s rq = (return_value, s)"

definition mock_response :: "jvalue \<Rightarrow> exn + response" where
  "mock_response json_return_value =
     Inr \<lparr>raise_for_status = None, content = ''True'', json_of = Inr json_return_value\<rparr>"

definition mock_empty_response :: "exn + response" where
  "mock_empty_response =
     Inr \<lparr>raise_for_status = None, content = [], json_of = Inr JNull\<rparr>"

text \<open>
  A server that keeps what is posted: a POST whose JSON body is a dict with a
  \<^verbatim>\<open>value\<close> field stores that field under the URL and answers with an empty body; a
  GET answers with a dict whose \<^verbatim>\<open>value\<close> field is what is stored under the URL
  (\<^verbatim>\<open>null\<close> when nothing is); anything else is answered with an error status.
\<close>

definition storing_server :: "(string \<times> jvalue) list network" where
  "storing_server store rq =
     (let refused = (Inr \<lparr>raise_for_status = Some (RequestException ''400 Client Error''),
                           content = [], json_of = Inr JNull\<rparr>, store)
      in if http_method rq = ''POST'' then
           (case json rq of
              Some (JObj d) \<Rightarrow>
                (case map_of d ''value'' of
                   Some v \<Rightarrow> (mock_empty_response, (url rq, v) # store)
                 | None \<Rightarrow> refused)
            | _ \<Rightarrow> refused)
         else if http_method rq = ''GET'' then
           (mock_response
              (JObj [(''value'', case map_of store (url rq) of Some v \<Rightarrow> v | None \<Rightarrow> JNull)]),
            store)
         else refused)"

section \<open>The transport, outcome by outcome\<close>

lemma calls_after: "calls (after net w rq) = calls w @ [rq]"
  by (simp add: after_def requests_request_def split: prod.splits)

lemma snd_DbxClient_request:
  "snd (DbxClient_request net self m p kw w) = after net w (request_args self m p kw)"
  by (simp add: DbxClient_request_def after_def Let_def split: prod.splits)

lemma DbxClient_request_fails:
  assumes "fails_with (answer net w (request_args self m p kw)) e"
  shows "DbxClient_request net self m p kw w =
           (Inl (if is_RequestException e
                 then RuntimeError (''Request failed: '' @ str_of e) e else e),
            after net w (request_args self m p kw))"
  using assms
  by (auto simp: DbxClient_request_def fails_with_def answer_def after_def Let_def
           split: prod.splits sum.splits option.splits)

lemma DbxClient_request_empty:
  assumes "empty_body (answer net w (request_args self m p kw))"
  shows "DbxClient_request net self m p kw w = (Inr JNull, after net w (request_args self m p kw))"
  using assms
  by (auto simp: DbxClient_request_def empty_body_def answer_def after_def Let_def
           split: prod.splits sum.splits option.splits)

lemma DbxClient_request_parses:
  assumes "parses_to (answer net w (request_args self m p kw)) j"
  shows "DbxClient_request net self m p kw w = (Inr j, after net w (request_args self m p kw))"
  using assms
  by (auto simp: DbxClient_request_def parses_to_def answer_def after_def Let_def
           split: prod.splits sum.splits option.splits)

section \<open>The operations, outcome by outcome\<close>

text \<open>
  Each operation makes one call; its result is read off the outcome of that call.
\<close>

lemma snd_get:
  "snd (StringClient_get net self key w) =
     after net w
       (request_args (client self) ''GET'' (''/redis/string/'' @ key)
              None)"
  using snd_DbxClient_request[of net "client self" "''GET''" "(''/redis/string/'' @ key)" "None" w]
  by (auto simp: StringClient_get_def Let_def split: prod.splits sum.splits)

lemma get_fails:
  assumes "fails_with (answer net w
             (request_args (client self) ''GET'' (''/redis/string/'' @ key)
              None)) e"
  shows "fst (StringClient_get net self key w) =
           Inl (if is_RequestException e then RuntimeError (''Request failed: '' @ str_of e) e else e)"
  using DbxClient_request_fails[OF assms] by (simp_all add: StringClient_get_def Let_def)

lemma get_empty:
  assumes "empty_body (answer net w
             (request_args (client self) ''GET'' (''/redis/string/'' @ key)
              None))"
  shows "fst (StringClient_get net self key w) = Inr JNull"
  using DbxClient_request_empty[OF assms] by (simp_all add: StringClient_get_def Let_def)

lemma get_parses:
  assumes "parses_to (answer net w
             (request_args (client self) ''GET'' (''/redis/string/'' @ key)
              None)) j"
  shows "fst (StringClient_get net self key w) = (if truthy j then py_get j ''value'' JNull else Inr JNull)"
  using DbxClient_request_parses[OF assms] by (simp_all add: StringClient_get_def Let_def)

lemma snd_delete:
  "snd (StringClient_delete net self key w) =
     after net w
       (request_args (client self) ''DELETE'' (''/redis/string/'' @ key)
              None)"
  using snd_DbxClient_request[of net "client self" "''DELETE''" "(''/redis/string/'' @ key)" "None" w]
  by (auto simp: StringClient_delete_def Let_def split: prod.splits sum.splits)

lemma delete_fails:
  assumes "fails_with (answer net w
             (request_args (client self) ''DELETE'' (''/redis/string/'' @ key)
              None)) e"
  shows "fst (StringClient_delete net self key w) =
           Inl (if is_RequestException e then RuntimeError (''Request failed: '' @ str_of e) e else e)"
  using DbxClient_request_fails[OF assms] by (simp_all add: StringClient_delete_def Let_def)

lemma delete_empty:
  assumes "empty_body (answer net w
             (request_args (client self) ''DELETE'' (''/redis/string/'' @ key)
              None))"
  shows "fst (StringClient_delete net self key w) = Inr (JBool False)"
  using DbxClient_request_empty[OF assms] by (simp_all add: StringClient_delete_def Let_def)

lemma delete_parses:
  assumes "parses_to (answer net w
             (request_args (client self) ''DELETE'' (''/redis/string/'' @ key)
              None)) j"
  shows "fst (StringClient_delete net self key w) = (if truthy j then py_get j ''deleted'' (JBool False) else Inr (JBool False))"
  using DbxClient_request_parses[OF assms] by (simp_all add: StringClient_delete_def Let_def)

lemma snd_info:
  "snd (StringClient_info net self key w) =
     after net w
       (request_args (client self) ''GET'' (''/redis/string/'' @ key @ ''/info'')
              None)"
  using snd_DbxClient_request[of net "client self" "''GET''" "(''/redis/string/'' @ key @ ''/info'')" "None" w]
  by (auto simp: StringClient_info_def Let_def split: prod.splits sum.splits)

lemma info_fails:
  assumes "fails_with (answer net w
             (request_args (client self) ''GET'' (''/redis/string/'' @ key @ ''/info'')
              None)) e"
  shows "fst (StringClient_info net self key w) =
           Inl (if is_RequestException e then RuntimeError (''Request failed: '' @ str_of e) e else e)"
  using DbxClient_request_fails[OF assms] by (simp_all add: StringClient_info_def Let_def)

lemma info_empty:
  assumes "empty_body (answer net w
             (request_args (client self) ''GET'' (''/redis/string/'' @ key @ ''/info'')
              None))"
  shows "fst (StringClient_info net self key w) = Inr JNull"
  using DbxClient_request_empty[OF assms] by (simp_all add: StringClient_info_def Let_def)

lemma info_parses:
  assumes "parses_to (answer net w
             (request_args (client self) ''GET'' (''/redis/string/'' @ key @ ''/info'')
              None)) j"
  shows "fst (StringClient_info net self key w) = Inr (if truthy j then j else JNull)"
  using DbxClient_request_parses[OF assms] by (simp_all add: StringClient_info_def Let_def)

lemma snd_batch_get:
  "snd (StringClient_batch_get net self keys w) =
     after net w
       (request_args (client self) ''POST'' ''/redis/string/batch_get''
              (Some (JObj [(''keys'', JArr (map JStr keys))])))"
  using snd_DbxClient_request[of net "client self" "''POST''" "''/redis/string/batch_get''" "(Some (JObj [(''keys'', JArr (map JStr keys))]))" w]
  by (auto simp: StringClient_batch_get_def Let_def split: prod.splits sum.splits)

lemma batch_get_fails:
  assumes "fails_with (answer net w
             (request_args (client self) ''POST'' ''/redis/string/batch_get''
              (Some (JObj [(''keys'', JArr (map JStr keys))])))) e"
  shows "fst (StringClient_batch_get net self keys w) =
           Inl (if is_RequestException e then RuntimeError (''Request failed: '' @ str_of e) e else e)"
  using DbxClient_request_fails[OF assms] by (simp_all add: StringClient_batch_get_def Let_def)

lemma batch_get_empty:
  assumes "empty_body (answer net w
             (request_args (client self) ''POST'' ''/redis/string/batch_get''
              (Some (JObj [(''keys'', JArr (map JStr keys))]))))"
  shows "fst (StringClient_batch_get net self keys w) = Inr (JArr [])"
  using DbxClient_request_empty[OF assms] by (simp_all add: StringClient_batch_get_def Let_def)

lemma batch_get_parses:
  assumes "parses_to (answer net w
             (request_args (client self) ''POST'' ''/redis/string/batch_get''
              (Some (JObj [(''keys'', JArr (map JStr keys))])))) j"
  shows "fst (StringClient_batch_get net self keys w) = (if truthy j then py_get j ''values'' (JArr []) else Inr (JArr []))"
  using DbxClient_request_parses[OF assms] by (simp_all add: StringClient_batch_get_def Let_def)

lemma snd_set:
  "snd (StringClient_set net self key v ttl w) =
     after net w
       (request_args (client self) ''POST'' (''/redis/string/'' @ key)
              (Some (JObj (case ttl of Some t \<Rightarrow> [(''value'', JStr v), (''ttl'', JInt t)] | None \<Rightarrow> [(''value'', JStr v)]))))"
  using snd_DbxClient_request[of net "client self" "''POST''" "(''/redis/string/'' @ key)" "(Some (JObj (case ttl of Some t \<Rightarrow> [(''value'', JStr v), (''ttl'', JInt t)] | None \<Rightarrow> [(''value'', JStr v)])))" w]
  by (cases ttl) (auto simp: StringClient_set_def Let_def split: prod.splits sum.splits)

lemma set_fails:
  assumes "fails_with (answer net w
             (request_args (client self) ''POST'' (''/redis/string/'' @ key)
              (Some (JObj (case ttl of Some t \<Rightarrow> [(''value'', JStr v), (''ttl'', JInt t)] | None \<Rightarrow> [(''value'', JStr v)]))))) e"
  shows "fst (StringClient_set net self key v ttl w) =
           Inl (if is_RequestException e then RuntimeError (''Request failed: '' @ str_of e) e else e)"
  using DbxClient_request_fails[OF assms] by (cases ttl) (simp_all add: StringClient_set_def Let_def)

lemma set_empty:
  assumes "empty_body (answer net w
             (request_args (client self) ''POST'' (''/redis/string/'' @ key)
              (Some (JObj (case ttl of Some t \<Rightarrow> [(''value'', JStr v), (''ttl'', JInt t)] | None \<Rightarrow> [(''value'', JStr v)])))))"
  shows "fst (StringClient_set net self key v ttl w) = Inr ()"
  using DbxClient_request_empty[OF assms] by (cases ttl) (simp_all add: StringClient_set_def Let_def)

lemma set_parses:
  assumes "parses_to (answer net w
             (request_args (client self) ''POST'' (''/redis/string/'' @ key)
              (Some (JObj (case ttl of Some t \<Rightarrow> [(''value'', JStr v), (''ttl'', JInt t)] | None \<Rightarrow> [(''value'', JStr v)]))))) j"
  shows "fst (StringClient_set net self key v ttl w) = Inr ()"
  using DbxClient_request_parses[OF assms] by (cases ttl) (simp_all add: StringClient_set_def Let_def)

lemma snd_batch_set:
  "snd (StringClient_batch_set net self operations w) =
     after net w
       (request_args (client self) ''POST'' ''/redis/string/batch_set''
              (Some (JObj [(''operations'', JArr (map JObj operations))])))"
  using snd_DbxClient_request[of net "client self" "''POST''" "''/redis/string/batch_set''" "(Some (JObj [(''operations'', JArr (map JObj operations))]))" w]
  by (auto simp: StringClient_batch_set_def Let_def split: prod.splits sum.splits)

lemma batch_set_fails:
  assumes "fails_with (answer net w
             (request_args (client self) ''POST'' ''/redis/string/batch_set''
              (Some (JObj [(''operations'', JArr (map JObj operations))])))) e"
  shows "fst (StringClient_batch_set net self operations w) =
           Inl (if is_RequestException e then RuntimeError (''Request failed: '' @ str_of e) e else e)"
  using DbxClient_request_fails[OF assms] by (simp_all add: StringClient_batch_set_def Let_def)

lemma batch_set_empty:
  assumes "empty_body (answer net w
             (request_args (client self) ''POST'' ''/redis/string/batch_set''
              (Some (JObj [(''operations'', JArr (map JObj operations))]))))"
  shows "fst (StringClient_batch_set net self operations w) = Inr ()"
  using DbxClient_request_empty[OF assms] by (simp_all add: StringClient_batch_set_def Let_def)

lemma batch_set_parses:
  assumes "parses_to (answer net w
             (request_args (client self) ''POST'' ''/redis/string/batch_set''
              (Some (JObj [(''operations'', JArr (map JObj operations))])))) j"
  shows "fst (StringClient_batch_set net self operations w) = Inr ()"
  using DbxClient_request_parses[OF assms] by (simp_all add: StringClient_batch_set_def Let_def)

section \<open>The stored base URL\<close>

lemma rstrip_no_trailing: "rstrip s c \<noteq> p @ [c]"
proof
  assume "rstrip s c = p @ [c]"
  then have "rev (rstrip s c) = rev (p @ [c])" by simp
  then have eq: "dropWhile (\<lambda>x. x = c) (rev s) = c # rev p"
    by (simp add: rstrip_def)
  then have "dropWhile (\<lambda>x. x = c) (rev s) \<noteq> []" by simp
  then have "hd (dropWhile (\<lambda>x. x = c) (rev s)) \<noteq> c" by (rule hd_dropWhile)
  with eq show False by simp
qed

lemma takeWhile_eq_replicate:
  "takeWhile (\<lambda>x. x = c) xs = replicate (length (takeWhile (\<lambda>x. x = c) xs)) c"
  by (induction xs) auto

lemma rstrip_suffix: "s = rstrip s c @ replicate (length (takeWhile (\<lambda>x. x = c) (rev s))) c"
proof -
  have "rev s = takeWhile (\<lambda>x. x = c) (rev s) @ dropWhile (\<lambda>x. x = c) (rev s)" by simp
  then have "rev (rev s) = rev (takeWhile (\<lambda>x. x = c) (rev s) @ dropWhile (\<lambda>x. x = c) (rev s))"
    by (rule arg_cong)
  then have "s = rev (dropWhile (\<lambda>x. x = c) (rev s)) @ rev (takeWhile (\<lambda>x. x = c) (rev s))"
    by (simp only: rev_append rev_rev_ident)
  moreover have "rev (takeWhile (\<lambda>x. x = c) (rev s)) =
      replicate (length (takeWhile (\<lambda>x. x = c) (rev s))) c"
    using takeWhile_eq_replicate[of c "rev s"] by (metis rev_replicate)
  ultimately show ?thesis by (simp add: rstrip_def)
qed

lemma url_request_args: "url (request_args self m p kw) = base_url self @ p"
  by (simp add: request_args_def Let_def)

lemma py_get_non_dict: "\<not> is_dict j \<Longrightarrow> py_get j k dflt = Inl (AttributeError (type_name j) ''get'')"
  by (cases j) simp_all

section \<open>Properties\<close>

text \<open>
  C1. For every operation (get, set, delete, info, batch_get, batch_set): if the one
  call to the HTTP library fails with \<open>e\<close> (the network call raises it, or the response's
  status makes \<^verbatim>\<open>raise_for_status\<close> raise it), then the operation raises exactly one
  error and the library has been called exactly once more than before: there is no
  retry. When \<open>e\<close> belongs to the \<^verbatim>\<open>requests.RequestException\<close> hierarchy the error is
  \<^verbatim>\<open>RuntimeError("Request failed: ...")\<close> with cause \<open>e\<close> (the error kind the
  specification calls RequestError); any other exception is not caught by
  \<^verbatim>\<open>except requests.RequestException\<close> and escapes as it is.
\<close>

theorem request_failure_wraps_or_escapes:
  "(fails_with (answer net w (request_args (client self) ''GET'' (''/redis/string/'' @ key) None)) e \<longrightarrow>
        fst (StringClient_get net self key w) =
          Inl (if is_RequestException e then RuntimeError (''Request failed: '' @ str_of e) e else e)
        \<and> calls (snd (StringClient_get net self key w)) =
            calls w @ [request_args (client self) ''GET'' (''/redis/string/'' @ key) None])
     \<and> (fails_with (answer net w (request_args (client self) ''POST'' (''/redis/string/'' @ key)
            (Some (JObj (case ttl of Some t \<Rightarrow> [(''value'', JStr v), (''ttl'', JInt t)]
                         | None \<Rightarrow> [(''value'', JStr v)]))))) e \<longrightarrow>
        fst (StringClient_set net self key v ttl w) =
          Inl (if is_RequestException e then RuntimeError (''Request failed: '' @ str_of e) e else e)
        \<and> calls (snd (StringClient_set net self key v ttl w)) =
            calls w @ [request_args (client self) ''POST'' (''/redis/string/'' @ key)
              (Some (JObj (case ttl of Some t \<Rightarrow> [(''value'', JStr v), (''ttl'', JInt t)]
                           | None \<Rightarrow> [(''value'', JStr v)])))])
     \<and> (fails_with (answer net w (request_args (client self) ''DELETE'' (''/redis/string/'' @ key) None)) e \<longrightarrow>
        fst (StringClient_delete net self key w) =
          Inl (if is_RequestException e then RuntimeError (''Request failed: '' @ str_of e) e else e)
        \<and> calls (snd (StringClient_delete net self key w)) =
            calls w @ [request_args (client self) ''DELETE'' (''/redis/string/'' @ key) None])
     \<and> (fails_with (answer net w (request_args (client self) ''GET'' (''/redis/string/'' @ key @ ''/info'') None)) e \<longrightarrow>
        fst (StringClient_info net self key w) =
          Inl (if is_RequestException e then RuntimeError (''Request failed: '' @ str_of e) e else e)
        \<and> calls (snd (StringClient_info net self key w)) =
            calls w @ [request_args (client self) ''GET'' (''/redis/string/'' @ key @ ''/info'') None])
     \<and> (fails_with (answer net w (request_args (client self) ''POST'' ''/redis/string/batch_get''
            (Some (JObj [(''keys'', JArr (map JStr keys))])))) e \<longrightarrow>
        fst (StringClient_batch_get net self keys w) =
          Inl (if is_RequestException e then RuntimeError (''Request failed: '' @ str_of e) e else e)
        \<and> calls (snd (StringClient_batch_get net self keys w)) =
            calls w @ [request_args (client self) ''POST'' ''/redis/string/batch_get''
              (Some (JObj [(''keys'', JArr (map JStr keys))]))])
     \<and> (fails_with (answer net w (request_args (client self) ''POST'' ''/redis/string/batch_set''
            (Some (JObj [(''operations'', JArr (map JObj operations))])))) e \<longrightarrow>
        fst (StringClient_batch_set net self operations w) =
          Inl (if is_RequestException e then RuntimeError (''Request failed: '' @ str_of e) e else e)
        \<and> calls (snd (StringClient_batch_set net self operations w)) =
            calls w @ [request_args (client self) ''POST'' ''/redis/string/batch_set''
              (Some (JObj [(''operations'', JArr (map JObj operations))]))])"
proof (intro conjI impI)
  assume "fails_with (answer net w (request_args (client self) ''GET'' (''/redis/string/'' @ key) None)) e"
  from get_fails[OF this]
  show "fst (StringClient_get net self key w) =
          Inl (if is_RequestException e then RuntimeError (''Request failed: '' @ str_of e) e else e)" .
next
  show "calls (snd (StringClient_get net self key w)) =
          calls w @ [request_args (client self) ''GET'' (''/redis/string/'' @ key) None]"
    by (simp only: snd_get calls_after)
next
  assume "fails_with (answer net w (request_args (client self) ''POST'' (''/redis/string/'' @ key)
            (Some (JObj (case ttl of Some t \<Rightarrow> [(''value'', JStr v), (''ttl'', JInt t)]
                         | None \<Rightarrow> [(''value'', JStr v)]))))) e"
  from set_fails[OF this]
  show "fst (StringClient_set net self key v ttl w) =
          Inl (if is_RequestException e then RuntimeError (''Request failed: '' @ str_of e) e else e)" .
next
  show "calls (snd (StringClient_set net self key v ttl w)) =
            calls w @ [request_args (client self) ''POST'' (''/redis/string/'' @ key)
              (Some (JObj (case ttl of Some t \<Rightarrow> [(''value'', JStr v), (''ttl'', JInt t)]
                           | None \<Rightarrow> [(''value'', JStr v)])))]"
    by (simp only: snd_set calls_after)
next
  assume "fails_with (answer net w (request_args (client self) ''DELETE'' (''/redis/string/'' @ key) None)) e"
  from delete_fails[OF this]
  show "fst (StringClient_delete net self key w) =
          Inl (if is_RequestException e then RuntimeError (''Request failed: '' @ str_of e) e else e)" .
next
  show "calls (snd (StringClient_delete net self key w)) =
            calls w @ [request_args (client self) ''DELETE'' (''/redis/string/'' @ key) None]"
    by (simp only: snd_delete calls_after)
next
  assume "fails_with (answer net w (request_args (client self) ''GET'' (''/redis/string/'' @ key @ ''/info'') None)) e"
  from info_fails[OF this]
  show "fst (StringClient_info net self key w) =
          Inl (if is_RequestException e then RuntimeError (''Request failed: '' @ str_of e) e else e)" .
next
  show "calls (snd (StringClient_info net self key w)) =
            calls w @ [request_args (client self) ''GET'' (''/redis/string/'' @ key @ ''/info'') None]"
    by (simp only: snd_info calls_after)
next
  assume "fails_with (answer net w (request_args (client self) ''POST'' ''/redis/string/batch_get''
            (Some (JObj [(''keys'', JArr (map JStr keys))])))) e"
  from batch_get_fails[OF this]
  show "fst (StringClient_batch_get net self keys w) =
          Inl (if is_RequestException e then RuntimeError (''Request failed: '' @ str_of e) e else e)" .
next
  show "calls (snd (StringClient_batch_get net self keys w)) =
            calls w @ [request_args (client self) ''POST'' ''/redis/string/batch_get''
              (Some (JObj [(''keys'', JArr (map JStr keys))]))]"
    by (simp only: snd_batch_get calls_after)
next
  assume "fails_with (answer net w (request_args (client self) ''POST'' ''/redis/string/batch_set''
            (Some (JObj [(''operations'', JArr (map JObj operations))])))) e"
  from batch_set_fails[OF this]
  show "fst (StringClient_batch_set net self operations w) =
          Inl (if is_RequestException e then RuntimeError (''Request failed: '' @ str_of e) e else e)" .
next
  show "calls (snd (StringClient_batch_set net self operations w)) =
            calls w @ [request_args (client self) ''POST'' ''/redis/string/batch_set''
              (Some (JObj [(''operations'', JArr (map JObj operations))]))]"
    by (simp only: snd_batch_set calls_after)
qed

text \<open>
  Witness for C1: the server answers every request with a 500 status. Each of the six
  operations of the test client raises the one wrapped error and makes one call.
\<close>

theorem request_failure_wraps_or_escapes_witness:
  "fails_with (answer
       (mock_request (Inr \<lparr>raise_for_status = Some (RequestException ''500 Server Error''),
                             content = ''oops'', json_of = Inr JNull\<rparr>)) fresh
       (request_args (client string_client) ''GET'' (''/redis/string/'' @ ''testkey'') None))
     (RequestException ''500 Server Error'')
   \<and> fst (StringClient_get
        (mock_request (Inr \<lparr>raise_for_status = Some (RequestException ''500 Server Error''),
                              content = ''oops'', json_of = Inr JNull\<rparr>))
        string_client ''testkey'' fresh)
      = Inl (RuntimeError ''Request failed: 500 Server Error'' (RequestException ''500 Server Error''))
   \<and> length (calls (snd (StringClient_get
        (mock_request (Inr \<lparr>raise_for_status = Some (RequestException ''500 Server Error''),
                              content = ''oops'', json_of = Inr JNull\<rparr>))
        string_client ''testkey'' fresh))) = 1
   \<and> fst (StringClient_set
        (mock_request (Inr \<lparr>raise_for_status = Some (RequestException ''500 Server Error''),
                              content = ''oops'', json_of = Inr JNull\<rparr>))
        string_client ''testkey'' ''testvalue'' (Some 3600) fresh)
      = Inl (RuntimeError ''Request failed: 500 Server Error'' (RequestException ''500 Server Error''))
   \<and> fst (StringClient_delete
        (mock_request (Inr \<lparr>raise_for_status = Some (RequestException ''500 Server Error''),
                              content = ''oops'', json_of = Inr JNull\<rparr>))
        string_client ''testkey'' fresh)
      = Inl (RuntimeError ''Request failed: 500 Server Error'' (RequestException ''500 Server Error''))
   \<and> fst (StringClient_info
        (mock_request (Inr \<lparr>raise_for_status = Some (RequestException ''500 Server Error''),
                              content = ''oops'', json_of = Inr JNull\<rparr>))
        string_client ''testkey'' fresh)
      = Inl (RuntimeError ''Request failed: 500 Server Error'' (RequestException ''500 Server Error''))
   \<and> fst (StringClient_batch_get
        (mock_request (Inr \<lparr>raise_for_status = Some (RequestException ''500 Server Error''),
                              content = ''oops'', json_of = Inr JNull\<rparr>))
        string_client [''key1''] fresh)
      = Inl (RuntimeError ''Request failed: 500 Server Error'' (RequestException ''500 Server Error''))
   \<and> fst (StringClient_batch_set
        (mock_request (Inr \<lparr>raise_for_status = Some (RequestException ''500 Server Error''),
                              content = ''oops'', json_of = Inr JNull\<rparr>))
        string_client [[(''key'', JStr ''key1''), (''value'', JStr ''val1'')]] fresh)
      = Inl (RuntimeError ''Request failed: 500 Server Error'' (RequestException ''500 Server Error''))"
  using request_failure_wraps_or_escapes
          [where e = "RequestException ''500 Server Error''"
             and net = "mock_request (Inr \<lparr>raise_for_status = Some (RequestException ''500 Server Error''),
                                    content = ''oops'', json_of = Inr JNull\<rparr>)"
             and w = fresh and self = string_client and key = "''testkey''"
             and v = "''testvalue''" and ttl = "Some 3600" and keys = "[''key1'']"
             and operations = "[[(''key'', JStr ''key1''), (''value'', JStr ''val1'')]]"]
  by (simp add: fails_with_def answer_def requests_request_def mock_request_def fresh_def)

text \<open>
  The claim as first stated, that every failure of the underlying call surfaces as the
  one wrapped error and no other kind escapes, fails: the library call raises a
  \<^verbatim>\<open>ValueError\<close> (as it does for a client built with \<^verbatim>\<open>timeout=0\<close>), which is outside the
  \<^verbatim>\<open>requests.RequestException\<close> hierarchy, and \<^verbatim>\<open>get("testkey")\<close> raises that
  \<^verbatim>\<open>ValueError\<close> itself, not the wrapped error.
\<close>

theorem request_failure_other_kind_escapes:
  "fails_with (answer (mock_request (Inl (OtherException ''ValueError''))) fresh
       (request_args (client string_client) ''GET'' (''/redis/string/'' @ ''testkey'') None))
     (OtherException ''ValueError'')
   \<and> fst (StringClient_get (mock_request (Inl (OtherException ''ValueError'')))
            string_client ''testkey'' fresh)
       = Inl (OtherException ''ValueError'')
   \<and> fst (StringClient_get (mock_request (Inl (OtherException ''ValueError'')))
            string_client ''testkey'' fresh)
       \<noteq> Inl (RuntimeError (''Request failed: '' @ str_of (OtherException ''ValueError''))
                (OtherException ''ValueError''))"
  by (simp add: StringClient_get_def DbxClient_request_def requests_request_def
                mock_request_def fails_with_def answer_def Let_def)

text \<open>
  C2. When the call succeeds with an empty response body, every extraction falls back
  without raising: get returns \<^verbatim>\<open>None\<close>, delete returns \<^verbatim>\<open>False\<close>, info returns
  \<^verbatim>\<open>None\<close>, and batch_get returns the empty list, for every key and every list of keys.
\<close>

theorem empty_body_gives_fallbacks:
  "(empty_body (answer net w (request_args (client self) ''GET'' (''/redis/string/'' @ key) None)) \<longrightarrow>
      fst (StringClient_get net self key w) = Inr JNull)
   \<and> (empty_body (answer net w (request_args (client self) ''DELETE'' (''/redis/string/'' @ key) None)) \<longrightarrow>
      fst (StringClient_delete net self key w) = Inr (JBool False))
   \<and> (empty_body (answer net w (request_args (client self) ''GET'' (''/redis/string/'' @ key @ ''/info'') None)) \<longrightarrow>
      fst (StringClient_info net self key w) = Inr JNull)
   \<and> (empty_body (answer net w (request_args (client self) ''POST'' ''/redis/string/batch_get''
          (Some (JObj [(''keys'', JArr (map JStr keys))])))) \<longrightarrow>
      fst (StringClient_batch_get net self keys w) = Inr (JArr []))"
  using get_empty[of net w self key] delete_empty[of net w self key]
        info_empty[of net w self key] batch_get_empty[of net w self keys]
  by blast

theorem empty_body_gives_fallbacks_witness:
  "empty_body (answer (mock_request mock_empty_response) fresh
      (request_args (client string_client) ''GET'' (''/redis/string/'' @ ''testkey'') None))
   \<and> fst (StringClient_get (mock_request mock_empty_response) string_client ''testkey'' fresh) = Inr JNull
   \<and> fst (StringClient_delete (mock_request mock_empty_response) string_client ''testkey'' fresh)
       = Inr (JBool False)
   \<and> fst (StringClient_info (mock_request mock_empty_response) string_client ''testkey'' fresh) = Inr JNull
   \<and> fst (StringClient_batch_get (mock_request mock_empty_response) string_client
            [''key1'', ''key2'', ''key3''] fresh) = Inr (JArr [])"
  using empty_body_gives_fallbacks
          [where net = "mock_request mock_empty_response" and w = fresh and self = string_client
             and key = "''testkey''" and keys = "[''key1'', ''key2'', ''key3'']"]
  by (simp add: empty_body_def answer_def requests_request_def mock_request_def
                mock_empty_response_def)

text \<open>
  C3. For every key, value and ttl, \<^verbatim>\<open>set(k, v, ttl=t)\<close> makes one POST to the key's path
  whose JSON body is exactly the dict with \<^verbatim>\<open>value\<close> \<open>v\<close> and \<^verbatim>\<open>ttl\<close> \<open>t\<close>, and
  \<^verbatim>\<open>set(k, v)\<close> makes one POST whose body is exactly the dict with \<^verbatim>\<open>value\<close> \<open>v\<close> and no
  \<^verbatim>\<open>ttl\<close> field.
\<close>

theorem set_request_body:
  "calls (snd (StringClient_set net self k v (Some t) w)) =
     calls w @ [\<lparr>http_method = ''POST'', url = base_url (client self) @ ''/redis/string/'' @ k,
                 timeout = DbxClient.timeout (client self),
                 headers = DbxClient.headers (client self),
                 json = Some (JObj [(''value'', JStr v), (''ttl'', JInt t)])\<rparr>]
   \<and> calls (snd (StringClient_set net self k v None w)) =
     calls w @ [\<lparr>http_method = ''POST'', url = base_url (client self) @ ''/redis/string/'' @ k,
                 timeout = DbxClient.timeout (client self),
                 headers = DbxClient.headers (client self),
                 json = Some (JObj [(''value'', JStr v)])\<rparr>]"
  using snd_set[of net self k v "Some t" w] snd_set[of net self k v None w]
  by (simp add: calls_after request_args_def Let_def)

text \<open>The unit test of set: key \<^verbatim>\<open>testkey\<close>, value \<^verbatim>\<open>testvalue\<close>, ttl 3600.\<close>

theorem set_request_body_witness:
  "calls (snd (StringClient_set (mock_request mock_empty_response) string_client
                 ''testkey'' ''testvalue'' (Some 3600) fresh)) =
     [\<lparr>http_method = ''POST'', url = ''http://localhost:8080/redis/string/testkey'',
       timeout = None, headers = [],
       json = Some (JObj [(''value'', JStr ''testvalue''), (''ttl'', JInt 3600)])\<rparr>]"
  using set_request_body
          [where net = "mock_request mock_empty_response" and self = string_client
             and k = "''testkey''" and v = "''testvalue''" and t = 3600 and w = fresh]
  by (simp add: string_client_def StringClient_init_def DbxClient_init_def rstrip_def fresh_def)

text \<open>
  C4. For every list of keys, batch_get makes one POST to the batch-get path whose JSON
  body is the dict with \<^verbatim>\<open>keys\<close> the given list, and when the response is a dict with a
  \<^verbatim>\<open>values\<close> field it returns that field unchanged: order kept, \<^verbatim>\<open>null\<close> entries passed
  through.
\<close>

theorem batch_get_returns_values:
  "calls (snd (StringClient_batch_get net self keys w)) =
     calls w @ [\<lparr>http_method = ''POST'', url = base_url (client self) @ ''/redis/string/batch_get'',
                 timeout = DbxClient.timeout (client self),
                 headers = DbxClient.headers (client self),
                 json = Some (JObj [(''keys'', JArr (map JStr keys))])\<rparr>]
   \<and> (parses_to (answer net w (request_args (client self) ''POST'' ''/redis/string/batch_get''
          (Some (JObj [(''keys'', JArr (map JStr keys))])))) (JObj d)
        \<and> map_of d ''values'' = Some vs \<longrightarrow>
      fst (StringClient_batch_get net self keys w) = Inr vs)"
  using snd_batch_get[of net self keys w] batch_get_parses[of net w self keys "JObj d"]
  by (auto simp: calls_after request_args_def Let_def)

text \<open>The unit test of batch_get: three keys, the third value \<^verbatim>\<open>null\<close>.\<close>

theorem batch_get_returns_values_witness:
  "parses_to (answer (mock_request (mock_response
        (JObj [(''values'', JArr [JStr ''val1'', JStr ''val2'', JNull])]))) fresh
      (request_args (client string_client) ''POST'' ''/redis/string/batch_get''
        (Some (JObj [(''keys'', JArr (map JStr [''key1'', ''key2'', ''key3'']))]))))
     (JObj [(''values'', JArr [JStr ''val1'', JStr ''val2'', JNull])])
   \<and> fst (StringClient_batch_get
        (mock_request (mock_response (JObj [(''values'', JArr [JStr ''val1'', JStr ''val2'', JNull])])))
        string_client [''key1'', ''key2'', ''key3''] fresh)
      = Inr (JArr [JStr ''val1'', JStr ''val2'', JNull])"
  using batch_get_returns_values
          [where net = "mock_request (mock_response
                          (JObj [(''values'', JArr [JStr ''val1'', JStr ''val2'', JNull])]))"
             and self = string_client and keys = "[''key1'', ''key2'', ''key3'']" and w = fresh
             and d = "[(''values'', JArr [JStr ''val1'', JStr ''val2'', JNull])]"
             and vs = "JArr [JStr ''val1'', JStr ''val2'', JNull]"]
  by (simp add: parses_to_def answer_def requests_request_def mock_request_def mock_response_def)

text \<open>
  C5. For every key, delete makes one DELETE request to the key's path, and when the
  response is a dict whose \<^verbatim>\<open>deleted\<close> field is a boolean it returns that boolean; for
  the body with \<^verbatim>\<open>deleted\<close> true, \<^verbatim>\<open>delete("testkey")\<close> returns \<^verbatim>\<open>True\<close>.
\<close>

theorem delete_returns_deleted_field:
  "calls (snd (StringClient_delete net self k w)) =
     calls w @ [\<lparr>http_method = ''DELETE'', url = base_url (client self) @ ''/redis/string/'' @ k,
                 timeout = DbxClient.timeout (client self),
                 headers = DbxClient.headers (client self), json = None\<rparr>]
   \<and> (parses_to (answer net w (request_args (client self) ''DELETE'' (''/redis/string/'' @ k) None))
          (JObj d)
        \<and> map_of d ''deleted'' = Some (JBool b) \<longrightarrow>
      fst (StringClient_delete net self k w) = Inr (JBool b))"
  using snd_delete[of net self k w] delete_parses[of net w self k "JObj d"]
  by (auto simp: calls_after request_args_def Let_def)

text \<open>The unit test of delete.\<close>

theorem delete_returns_deleted_field_witness:
  "parses_to (answer (mock_request (mock_response (JObj [(''deleted'', JBool True)]))) fresh
      (request_args (client string_client) ''DELETE'' (''/redis/string/'' @ ''testkey'') None))
     (JObj [(''deleted'', JBool True)])
   \<and> fst (StringClient_delete (mock_request (mock_response (JObj [(''deleted'', JBool True)])))
            string_client ''testkey'' fresh) = Inr (JBool True)
   \<and> calls (snd (StringClient_delete (mock_request (mock_response (JObj [(''deleted'', JBool True)])))
            string_client ''testkey'' fresh)) =
       [\<lparr>http_method = ''DELETE'', url = ''http://localhost:8080/redis/string/testkey'',
         timeout = None, headers = [], json = None\<rparr>]"
  using delete_returns_deleted_field
          [where net = "mock_request (mock_response (JObj [(''deleted'', JBool True)]))"
             and self = string_client and k = "''testkey''" and w = fresh
             and d = "[(''deleted'', JBool True)]" and b = True]
  by (simp add: parses_to_def answer_def requests_request_def mock_request_def mock_response_def
                string_client_def StringClient_init_def DbxClient_init_def rstrip_def fresh_def)

text \<open>
  C6. For all keys \<open>k\<close> and values \<open>v\<close>, against a server that accepts the POST made
  by \<^verbatim>\<open>set(k, v)\<close> and, in the state that POST leaves it in, answers the GET on the same
  key with a dict whose \<^verbatim>\<open>value\<close> field is \<open>v\<close>: \<^verbatim>\<open>set(k, v)\<close> returns normally and the
  \<^verbatim>\<open>get(k)\<close> that follows it returns \<open>v\<close>.
\<close>

theorem set_then_get_returns_value:
  assumes accepted:
    "empty_body (answer net w (request_args (client self) ''POST'' (''/redis/string/'' @ k)
        (Some (JObj [(''value'', JStr v)]))))
     \<or> (\<exists>j. parses_to (answer net w (request_args (client self) ''POST'' (''/redis/string/'' @ k)
        (Some (JObj [(''value'', JStr v)])))) j)"
    and served:
    "parses_to
       (answer net
          (after net w (request_args (client self) ''POST'' (''/redis/string/'' @ k)
             (Some (JObj [(''value'', JStr v)]))))
          (request_args (client self) ''GET'' (''/redis/string/'' @ k) None))
       (JObj d)"
    and field: "map_of d ''value'' = Some (JStr v)"
  shows "fst (StringClient_set net self k v None w) = Inr ()
         \<and> fst (StringClient_get net self k (snd (StringClient_set net self k v None w)))
             = Inr (JStr v)"
proof
  show "fst (StringClient_set net self k v None w) = Inr ()"
    using accepted set_empty[where net = net and w = w and self = self and key = k and v = v and ttl = None]
          set_parses[where net = net and w = w and self = self and key = k and v = v and ttl = None]
    by auto
next
  have world: "snd (StringClient_set net self k v None w) =
      after net w (request_args (client self) ''POST'' (''/redis/string/'' @ k)
        (Some (JObj [(''value'', JStr v)])))"
    using snd_set[of net self k v None w] by simp
  have "d \<noteq> []" using field by auto
  then show "fst (StringClient_get net self k (snd (StringClient_set net self k v None w)))
      = Inr (JStr v)"
    using get_parses[OF served] field by (simp add: world)
qed

text \<open>
  Witness for C6: the storing server, empty at first; \<^verbatim>\<open>set("testkey", "testvalue")\<close>
  then \<^verbatim>\<open>get("testkey")\<close>.
\<close>

theorem set_then_get_returns_value_witness:
  "fst (StringClient_set storing_server string_client ''testkey'' ''testvalue'' None
          \<lparr>calls = [], server = []\<rparr>) = Inr ()
   \<and> fst (StringClient_get storing_server string_client ''testkey''
          (snd (StringClient_set storing_server string_client ''testkey'' ''testvalue'' None
                  \<lparr>calls = [], server = []\<rparr>)))
       = Inr (JStr ''testvalue'')"
proof -
  have accepted:
    "empty_body (answer storing_server \<lparr>calls = [], server = []\<rparr>
        (request_args (client string_client) ''POST'' (''/redis/string/'' @ ''testkey'')
          (Some (JObj [(''value'', JStr ''testvalue'')]))))
     \<or> (\<exists>j. parses_to (answer storing_server \<lparr>calls = [], server = []\<rparr>
        (request_args (client string_client) ''POST'' (''/redis/string/'' @ ''testkey'')
          (Some (JObj [(''value'', JStr ''testvalue'')])))) j)"
    by (simp add: empty_body_def answer_def requests_request_def storing_server_def
                  request_args_def mock_empty_response_def Let_def)
  have served:
    "parses_to
       (answer storing_server
          (after storing_server \<lparr>calls = [], server = []\<rparr>
             (request_args (client string_client) ''POST'' (''/redis/string/'' @ ''testkey'')
               (Some (JObj [(''value'', JStr ''testvalue'')]))))
          (request_args (client string_client) ''GET'' (''/redis/string/'' @ ''testkey'') None))
       (JObj [(''value'', JStr ''testvalue'')])"
    by (simp add: parses_to_def answer_def after_def requests_request_def storing_server_def
                  request_args_def mock_empty_response_def mock_response_def Let_def)
  have field: "map_of [(''value'', JStr ''testvalue'')] ''value'' = Some (JStr ''testvalue'')"
    by simp
  from set_then_get_returns_value[OF accepted served field] show ?thesis .
qed

text \<open>
  C7. For every base URL given at construction, the stored base URL does not end in a
  slash: it is the given URL with its trailing slashes removed. The client is never
  modified afterwards, and the URL of the request each operation sends is exactly the
  stored base URL followed by the operation's path.
\<close>

theorem base_url_no_trailing_slash:
  "\<not> (\<exists>pre. base_url (DbxClient_init b t h) = pre @ ''/'')
   \<and> (\<exists>n. b = base_url (DbxClient_init b t h) @ replicate n CHR ''/'')
   \<and> map url (calls (snd (DbxClient_request net (DbxClient_init b t h) m path kw w)))
       = map url (calls w) @ [base_url (DbxClient_init b t h) @ path]
   \<and> map url (calls (snd (StringClient_get net (StringClient_init (DbxClient_init b t h)) key w)))
       = map url (calls w) @ [base_url (DbxClient_init b t h) @ ''/redis/string/'' @ key]
   \<and> map url (calls (snd (StringClient_set net (StringClient_init (DbxClient_init b t h)) key v ttl w)))
       = map url (calls w) @ [base_url (DbxClient_init b t h) @ ''/redis/string/'' @ key]
   \<and> map url (calls (snd (StringClient_delete net (StringClient_init (DbxClient_init b t h)) key w)))
       = map url (calls w) @ [base_url (DbxClient_init b t h) @ ''/redis/string/'' @ key]
   \<and> map url (calls (snd (StringClient_info net (StringClient_init (DbxClient_init b t h)) key w)))
       = map url (calls w) @ [base_url (DbxClient_init b t h) @ ''/redis/string/'' @ key @ ''/info'']
   \<and> map url (calls (snd (StringClient_batch_get net (StringClient_init (DbxClient_init b t h)) keys w)))
       = map url (calls w) @ [base_url (DbxClient_init b t h) @ ''/redis/string/batch_get'']
   \<and> map url (calls (snd (StringClient_batch_set net (StringClient_init (DbxClient_init b t h))
                             operations w)))
       = map url (calls w) @ [base_url (DbxClient_init b t h) @ ''/redis/string/batch_set'']"
proof -
  have stored: "base_url (DbxClient_init b t h) = rstrip b CHR ''/''"
    by (simp add: DbxClient_init_def)
  have no_slash: "\<not> (\<exists>pre. base_url (DbxClient_init b t h) = pre @ ''/'')"
    using rstrip_no_trailing[of b "CHR ''/''"] by (simp add: stored)
  have stripped: "\<exists>n. b = base_url (DbxClient_init b t h) @ replicate n CHR ''/''"
    using rstrip_suffix[of b "CHR ''/''"] unfolding stored by (rule exI)
  have self: "client (StringClient_init (DbxClient_init b t h)) = DbxClient_init b t h"
    by (simp add: StringClient_init_def)
  show ?thesis
    using no_slash stripped
    by (simp add: snd_DbxClient_request snd_get snd_set snd_delete snd_info snd_batch_get
                  snd_batch_set calls_after url_request_args self)
qed

text \<open>
  The client of the unit tests, built from a base URL that ends in two slashes.
\<close>

theorem base_url_no_trailing_slash_witness:
  "base_url (DbxClient_init ''http://localhost:8080//'' None None) = ''http://localhost:8080''
   \<and> map url (calls (snd (StringClient_info (mock_request mock_empty_response)
         (StringClient_init (DbxClient_init ''http://localhost:8080//'' None None)) ''testkey'' fresh)))
       = [''http://localhost:8080/redis/string/testkey/info'']"
  using base_url_no_trailing_slash
          [where b = "''http://localhost:8080//''" and t = None and h = None
             and net = "mock_request mock_empty_response" and key = "''testkey''" and w = fresh]
  by (simp add: DbxClient_init_def rstrip_def fresh_def)

text \<open>
  C8. When the call succeeds with a body that parses to a non-empty dict lacking the
  expected field, the facade falls back silently: get returns \<^verbatim>\<open>None\<close> when \<^verbatim>\<open>value\<close>
  is absent, delete returns \<^verbatim>\<open>False\<close> when \<^verbatim>\<open>deleted\<close> is absent, and batch_get returns
  the empty list when \<^verbatim>\<open>values\<close> is absent.
\<close>

theorem missing_field_gives_fallbacks:
  "(parses_to (answer net w (request_args (client self) ''GET'' (''/redis/string/'' @ key) None))
        (JObj d)
      \<and> d \<noteq> [] \<and> map_of d ''value'' = None \<longrightarrow>
      fst (StringClient_get net self key w) = Inr JNull)
   \<and> (parses_to (answer net w (request_args (client self) ''DELETE'' (''/redis/string/'' @ key) None))
        (JObj d)
      \<and> d \<noteq> [] \<and> map_of d ''deleted'' = None \<longrightarrow>
      fst (StringClient_delete net self key w) = Inr (JBool False))
   \<and> (parses_to (answer net w (request_args (client self) ''POST'' ''/redis/string/batch_get''
          (Some (JObj [(''keys'', JArr (map JStr keys))])))) (JObj d)
      \<and> d \<noteq> [] \<and> map_of d ''values'' = None \<longrightarrow>
      fst (StringClient_batch_get net self keys w) = Inr (JArr []))"
  using get_parses[of net w self key "JObj d"] delete_parses[of net w self key "JObj d"]
        batch_get_parses[of net w self keys "JObj d"]
  by auto

text \<open>Witness for C8: the server answers with a dict that has only a \<^verbatim>\<open>status\<close> field.\<close>

theorem missing_field_gives_fallbacks_witness:
  "parses_to (answer (mock_request (mock_response (JObj [(''status'', JStr ''ok'')]))) fresh
      (request_args (client string_client) ''GET'' (''/redis/string/'' @ ''testkey'') None))
     (JObj [(''status'', JStr ''ok'')])
   \<and> [(''status'', JStr ''ok'')] \<noteq> []
   \<and> map_of [(''status'', JStr ''ok'')] ''value'' = None
   \<and> fst (StringClient_get (mock_request (mock_response (JObj [(''status'', JStr ''ok'')])))
            string_client ''testkey'' fresh) = Inr JNull
   \<and> fst (StringClient_delete (mock_request (mock_response (JObj [(''status'', JStr ''ok'')])))
            string_client ''testkey'' fresh) = Inr (JBool False)
   \<and> fst (StringClient_batch_get (mock_request (mock_response (JObj [(''status'', JStr ''ok'')])))
            string_client [''key1''] fresh) = Inr (JArr [])"
  using missing_field_gives_fallbacks
          [where net = "mock_request (mock_response (JObj [(''status'', JStr ''ok'')]))"
             and self = string_client and key = "''testkey''" and keys = "[''key1'']"
             and w = fresh and d = "[(''status'', JStr ''ok'')]"]
  by (simp add: parses_to_def answer_def requests_request_def mock_request_def mock_response_def)

text \<open>
  C9. When the call succeeds with a non-empty body that parses to a value Python's truth
  test rejects (the empty dict in particular), info returns \<^verbatim>\<open>None\<close> instead of that
  value, and get, delete and batch_get return their fallbacks: the results are those
  of an empty body.
\<close>

theorem falsy_body_gives_fallbacks:
  "(parses_to (answer net w (request_args (client self) ''GET'' (''/redis/string/'' @ key @ ''/info'') None)) j
      \<and> \<not> truthy j \<longrightarrow>
      fst (StringClient_info net self key w) = Inr JNull)
   \<and> (parses_to (answer net w (request_args (client self) ''GET'' (''/redis/string/'' @ key) None)) j
      \<and> \<not> truthy j \<longrightarrow>
      fst (StringClient_get net self key w) = Inr JNull)
   \<and> (parses_to (answer net w (request_args (client self) ''DELETE'' (''/redis/string/'' @ key) None)) j
      \<and> \<not> truthy j \<longrightarrow>
      fst (StringClient_delete net self key w) = Inr (JBool False))
   \<and> (parses_to (answer net w (request_args (client self) ''POST'' ''/redis/string/batch_get''
          (Some (JObj [(''keys'', JArr (map JStr keys))])))) j
      \<and> \<not> truthy j \<longrightarrow>
      fst (StringClient_batch_get net self keys w) = Inr (JArr []))"
  using info_parses[of net w self key j] get_parses[of net w self key j]
        delete_parses[of net w self key j] batch_get_parses[of net w self keys j]
  by auto

text \<open>Witness for C9: the body is the empty dict.\<close>

theorem falsy_body_gives_fallbacks_witness:
  "parses_to (answer (mock_request (mock_response (JObj []))) fresh
      (request_args (client string_client) ''GET'' (''/redis/string/'' @ ''testkey'' @ ''/info'') None))
     (JObj [])
   \<and> \<not> truthy (JObj [])
   \<and> fst (StringClient_info (mock_request (mock_response (JObj []))) string_client ''testkey'' fresh)
       = Inr JNull
   \<and> fst (StringClient_get (mock_request (mock_response (JObj []))) string_client ''testkey'' fresh)
       = Inr JNull
   \<and> fst (StringClient_delete (mock_request (mock_response (JObj []))) string_client ''testkey'' fresh)
       = Inr (JBool False)
   \<and> fst (StringClient_batch_get (mock_request (mock_response (JObj []))) string_client
            [''key1''] fresh) = Inr (JArr [])"
  using falsy_body_gives_fallbacks
          [where net = "mock_request (mock_response (JObj []))" and self = string_client
             and key = "''testkey''" and keys = "[''key1'']" and w = fresh and j = "JObj []"]
  by (simp add: parses_to_def answer_def requests_request_def mock_request_def mock_response_def)

text \<open>
  C10. The extraction step is not total: when the call succeeds with a non-empty body
  that parses to a value which passes the truth test and is not a dict (a non-empty
  list, a non-empty string, a non-zero number, \<^verbatim>\<open>true\<close>), get, delete and batch_get raise
  \<^verbatim>\<open>AttributeError\<close> instead of returning a value or a fallback.
\<close>

theorem non_dict_body_raises:
  "(parses_to (answer net w (request_args (client self) ''GET'' (''/redis/string/'' @ key) None)) j
      \<and> truthy j \<and> \<not> is_dict j \<longrightarrow>
      fst (StringClient_get net self key w) = Inl (AttributeError (type_name j) ''get''))
   \<and> (parses_to (answer net w (request_args (client self) ''DELETE'' (''/redis/string/'' @ key) None)) j
      \<and> truthy j \<and> \<not> is_dict j \<longrightarrow>
      fst (StringClient_delete net self key w) = Inl (AttributeError (type_name j) ''get''))
   \<and> (parses_to (answer net w (request_args (client self) ''POST'' ''/redis/string/batch_get''
          (Some (JObj [(''keys'', JArr (map JStr keys))])))) j
      \<and> truthy j \<and> \<not> is_dict j \<longrightarrow>
      fst (StringClient_batch_get net self keys w) = Inl (AttributeError (type_name j) ''get''))"
  using get_parses[of net w self key j] delete_parses[of net w self key j]
        batch_get_parses[of net w self keys j] py_get_non_dict[of j]
  by auto

text \<open>Witness for C10: the body is the one-element list of the string \<^verbatim>\<open>val1\<close>.\<close>

theorem non_dict_body_raises_witness:
  "parses_to (answer (mock_request (mock_response (JArr [JStr ''val1'']))) fresh
      (request_args (client string_client) ''GET'' (''/redis/string/'' @ ''testkey'') None))
     (JArr [JStr ''val1''])
   \<and> truthy (JArr [JStr ''val1'']) \<and> \<not> is_dict (JArr [JStr ''val1''])
   \<and> fst (StringClient_get (mock_request (mock_response (JArr [JStr ''val1''])))
            string_client ''testkey'' fresh) = Inl (AttributeError ''list'' ''get'')
   \<and> fst (StringClient_delete (mock_request (mock_response (JArr [JStr ''val1''])))
            string_client ''testkey'' fresh) = Inl (AttributeError ''list'' ''get'')
   \<and> fst (StringClient_batch_get (mock_request (mock_response (JArr [JStr ''val1''])))
            string_client [''key1''] fresh) = Inl (AttributeError ''list'' ''get'')"
  using non_dict_body_raises
          [where net = "mock_request (mock_response (JArr [JStr ''val1'']))" and self = string_client
             and key = "''testkey''" and keys = "[''key1'']" and w = fresh
             and j = "JArr [JStr ''val1'']"]
  by (simp add: parses_to_def answer_def requests_request_def mock_request_def mock_response_def)

end
